theory Spec2Isabelle
  imports Complex_Main "HOL-Library.AList"
begin

section \<open>Tables\<close>

text \<open>
  A table (the DataFrame of \<^verbatim>\<open>HR_Diagram_Maker.py\<close>) is an association list from
  column names to columns, in column order. A cell holds an integer, a number (a float,
  idealised as a real) or a string. Missing cells (NaN) are not modelled. The cells of
  one column have one type, so that equality of cells is equality of their values.
\<close>

datatype cell = IntCell int | NumCell real | StrCell string

type_synonym series = "cell list"

type_synonym dataframe = "(string \<times> series) list"

datatype error = KeyError | ValueError | TypeError | IndexError

definition df_columns :: "dataframe \<Rightarrow> string list" where
  "df_columns df = map fst df"

text \<open>\<^verbatim>\<open>df[name]\<close>: the column, or KeyError when the table has no such column.\<close>

definition df_getitem :: "dataframe \<Rightarrow> string \<Rightarrow> error + series" where
  "df_getitem df name = (case map_of df name of None \<Rightarrow> Inl KeyError | Some col \<Rightarrow> Inr col)"

text \<open>\<^verbatim>\<open>df[name] = col\<close>: replaces the column of that name, or appends a new one.\<close>

definition df_setitem :: "dataframe \<Rightarrow> string \<Rightarrow> series \<Rightarrow> dataframe" where
  "df_setitem df name col = AList.update name col df"

text \<open>The number of rows, read off the first column.\<close>

fun nrows :: "dataframe \<Rightarrow> nat" where
  "nrows [] = 0"
| "nrows ((name, col) # df) = length col"

text \<open>\<^verbatim>\<open>Series.map(f)\<close>: applies \<open>f\<close> to every cell; an exception of \<open>f\<close> leaves the map.\<close>

fun series_map :: "(cell \<Rightarrow> error + cell) \<Rightarrow> series \<Rightarrow> error + series" where
  "series_map f [] = Inr []"
| "series_map f (x # xs) =
     (case f x of
        Inl e \<Rightarrow> Inl e
      | Inr y \<Rightarrow> (case series_map f xs of Inl e \<Rightarrow> Inl e | Inr ys \<Rightarrow> Inr (y # ys)))"

text \<open>\<^verbatim>\<open>Series.unique()\<close>: the distinct values in order of first appearance.\<close>

fun unique :: "'a list \<Rightarrow> 'a list" where
  "unique [] = []"
| "unique (x # xs) = x # unique (removeAll x xs)"

text \<open>\<^verbatim>\<open>df[mask]\<close>: the rows at which the boolean mask holds, in every column.\<close>

definition select_rows :: "bool list \<Rightarrow> 'a list \<Rightarrow> 'a list" where
  "select_rows keep col = map snd (filter fst (zip keep col))"

definition df_select :: "dataframe \<Rightarrow> bool list \<Rightarrow> dataframe" where
  "df_select df keep = map (\<lambda>(name, col). (name, select_rows keep col)) df"

text \<open>\<^verbatim>\<open>df.empty\<close>: no columns or no rows.\<close>

definition df_empty :: "dataframe \<Rightarrow> bool" where
  "df_empty df = (df = [] \<or> nrows df = 0)"

text \<open>\<^verbatim>\<open>series.iloc[i]\<close> for a position \<open>i\<close> counted from the front.\<close>

definition iloc :: "series \<Rightarrow> nat \<Rightarrow> error + cell" where
  "iloc col i = (if i < length col then Inr (col ! i) else Inl IndexError)"

text \<open>The numeric value of a cell; a string has none.\<close>

fun cell_num :: "cell \<Rightarrow> real option" where
  "cell_num (IntCell i) = Some (of_int i)"
| "cell_num (NumCell x) = Some x"
| "cell_num (StrCell s) = None"

fun series_nums :: "series \<Rightarrow> error + real list" where
  "series_nums [] = Inr []"
| "series_nums (x # xs) =
     (case cell_num x of
        None \<Rightarrow> Inl TypeError
      | Some v \<Rightarrow> (case series_nums xs of Inl e \<Rightarrow> Inl e | Inr vs \<Rightarrow> Inr (v # vs)))"

text \<open>
  \<^verbatim>\<open>series.min()\<close> and \<^verbatim>\<open>series.max()\<close>. On an empty column the source gets NaN, which
  stays NaN under the padding arithmetic and is refused as an axis limit (ValueError);
  nothing observable lies in between, so the model raises at once.
\<close>

definition series_min :: "series \<Rightarrow> error + real" where
  "series_min col =
     (case series_nums col of
        Inl e \<Rightarrow> Inl e
      | Inr [] \<Rightarrow> Inl ValueError
      | Inr (v # vs) \<Rightarrow> Inr (fold min vs v))"

definition series_max :: "series \<Rightarrow> error + real" where
  "series_max col =
     (case series_nums col of
        Inl e \<Rightarrow> Inl e
      | Inr [] \<Rightarrow> Inl ValueError
      | Inr (v # vs) \<Rightarrow> Inr (fold max vs v))"

section \<open>Dataset loader\<close>

definition required_columns :: "string list" where
  "required_columns =
     [''Temperature (K)'', ''Luminosity(L/Lo)'', ''Absolute magnitude(Mv)'',
      ''Star type'', ''Spectral Class'']"

definition missing_columns_message :: string where
  "missing_columns_message =
     ''Dataset must contain required columns: Temperature (K), Luminosity(L/Lo), Absolute magnitude(Mv), Star type, Spectral Class''"

text \<open>
  \<^verbatim>\<open>load_data(file_path)\<close>. The CSV reader is a parameter: it yields a table, or raises an
  exception with a message. The second argument and the second result are the lines
  printed so far. The result \<open>None\<close> is Python's \<^verbatim>\<open>None\<close>.
\<close>

definition load_data ::
  "(string \<Rightarrow> string + dataframe) \<Rightarrow> string \<Rightarrow> string list \<Rightarrow> dataframe option \<times> string list" where
  "load_data read_csv file_path out =
     (case read_csv file_path of
        Inl msg \<Rightarrow> (None, out @ [''Error loading data: '' @ msg])
      | Inr df \<Rightarrow>
          if \<not> list_all (\<lambda>col. col \<in> set (df_columns df)) required_columns
          then (None, out @ [''Error loading data: '' @ missing_columns_message])
          else (Some df, out))"

section \<open>Star classifier\<close>

definition star_type_map :: "int \<rightharpoonup> string \<times> int \<times> string" where
  "star_type_map =
     [0 \<mapsto> (''Red Dwarf'', 30, ''red''),
      1 \<mapsto> (''Brown Dwarf'', 20, ''maroon''),
      2 \<mapsto> (''White Dwarf'', 25, ''green''),
      3 \<mapsto> (''Main Sequence'', 50, ''blue''),
      4 \<mapsto> (''Giant'', 80, ''orange''),
      5 \<mapsto> (''Supergiant'', 100, ''purple'')]"

text \<open>
  The dictionary key a cell stands for: Python finds an integer key through an equal
  float (\<^verbatim>\<open>d[3.0]\<close> is \<^verbatim>\<open>d[3]\<close>), and through no string.
\<close>

fun cell_key :: "cell \<Rightarrow> int option" where
  "cell_key (IntCell i) = Some i"
| "cell_key (NumCell x) = (if x = of_int \<lfloor>x\<rfloor> then Some \<lfloor>x\<rfloor> else None)"
| "cell_key (StrCell s) = None"

text \<open>\<^verbatim>\<open>star_type_map[x]\<close>: KeyError for a key that is not in the dictionary.\<close>

definition star_type_lookup :: "cell \<Rightarrow> error + string \<times> int \<times> string" where
  "star_type_lookup x =
     (case cell_key x of
        None \<Rightarrow> Inl KeyError
      | Some k \<Rightarrow> (case star_type_map k of None \<Rightarrow> Inl KeyError | Some t \<Rightarrow> Inr t))"

definition label_of :: "cell \<Rightarrow> error + cell" where
  "label_of x = (case star_type_lookup x of Inl e \<Rightarrow> Inl e | Inr t \<Rightarrow> Inr (StrCell (fst t)))"

definition size_of :: "cell \<Rightarrow> error + cell" where
  "size_of x = (case star_type_lookup x of Inl e \<Rightarrow> Inl e | Inr t \<Rightarrow> Inr (IntCell (fst (snd t))))"

definition color_of :: "cell \<Rightarrow> error + cell" where
  "color_of x = (case star_type_lookup x of Inl e \<Rightarrow> Inl e | Inr t \<Rightarrow> Inr (StrCell (snd (snd t))))"

text \<open>
  \<^verbatim>\<open>map_star_types(df)\<close>. The argument is a reference into the store of tables (a list,
  indexed by reference), since the source assigns the three columns to the caller's own
  table object and returns that object. The store is returned also when an exception
  leaves the function.
\<close>

definition map_star_types :: "nat \<Rightarrow> dataframe list \<Rightarrow> (error + nat) \<times> dataframe list" where
  "map_star_types df h =
     (case df_getitem (h ! df) ''Star type'' of
        Inl e \<Rightarrow> (Inl e, h)
      | Inr col1 \<Rightarrow>
     (case series_map label_of col1 of
        Inl e \<Rightarrow> (Inl e, h)
      | Inr labels \<Rightarrow>
     (let h1 = h[df := df_setitem (h ! df) ''Star type label'' labels] in
     (case df_getitem (h1 ! df) ''Star type'' of
        Inl e \<Rightarrow> (Inl e, h1)
      | Inr col2 \<Rightarrow>
     (case series_map size_of col2 of
        Inl e \<Rightarrow> (Inl e, h1)
      | Inr sizes \<Rightarrow>
     (let h2 = h1[df := df_setitem (h1 ! df) ''Marker size'' sizes] in
     (case df_getitem (h2 ! df) ''Star type'' of
        Inl e \<Rightarrow> (Inl e, h2)
      | Inr col3 \<Rightarrow>
     (case series_map color_of col3 of
        Inl e \<Rightarrow> (Inl e, h2)
      | Inr colors \<Rightarrow>
     (let h3 = h2[df := df_setitem (h2 ! df) ''Color'' colors] in
      (Inr df, h3))))))))))"

section \<open>Axes and figures\<close>

text \<open>
  The chart renderer is an external collaborator. An axes object is modelled by the
  specification the program hands to it: scales, limits, tick positions, tick labels,
  minor-tick locators, texts, scatter layers and legend. Each setter stores its argument;
  what the renderer computes from the specification when it draws (pixel layout, tick
  thinning, automatic limits) is not modelled. Font sizes and the legend's anchor are
  left out.
\<close>

datatype axis_scale = Linear | Log

text \<open>
  Limits are either left to the renderer (\<open>Auto\<close>, with the flag telling whether the axis
  is inverted) or fixed as the pair of the left and right (bottom and top) ends. An axis
  with fixed limits runs inverted when the first end is the greater one.
\<close>

datatype limits = Auto bool | Fixed real real

fun invert :: "limits \<Rightarrow> limits" where
  "invert (Auto b) = Auto (\<not> b)"
| "invert (Fixed a b) = Fixed b a"

fun inverted :: "limits \<Rightarrow> bool" where
  "inverted (Auto b) = b"
| "inverted (Fixed a b) = (b < a)"

record log_locator =
  loc_base :: real
  loc_subs :: "real list"
  loc_numticks :: "nat option"

datatype tick_formatter = DefaultFormatter | ScalarFormatter | FixedFormatter "string list"

record scatter_layer =
  sc_x :: series
  sc_y :: series
  sc_c :: cell
  sc_s :: cell
  sc_label :: cell
  sc_alpha :: real
  sc_edgecolors :: string
  sc_linewidth :: real

record axes =
  xscale :: axis_scale
  yscale :: axis_scale
  xlim :: limits
  ylim :: limits
  xticks :: "real list option"
  yticks :: "real list option"
  x_formatter :: tick_formatter
  y_formatter :: tick_formatter
  x_minor_locator :: "log_locator option"
  y_minor_locator :: "log_locator option"
  minor_tick_length :: "real option"
  xlabel :: string
  ylabel :: string
  title :: string
  collections :: "scatter_layer list"
  legend :: "(string \<times> cell list) option"
  grid :: bool

definition new_axes :: axes where
  "new_axes =
     \<lparr>xscale = Linear, yscale = Linear, xlim = Auto False, ylim = Auto False,
      xticks = None, yticks = None, x_formatter = DefaultFormatter,
      y_formatter = DefaultFormatter, x_minor_locator = None, y_minor_locator = None,
      minor_tick_length = None, xlabel = [], ylabel = [], title = [],
      collections = [], legend = None, grid = False\<rparr>"

text \<open>\<^verbatim>\<open>ax.twiny()\<close>: a fresh axes that shares the y axis (scale and limits) of \<open>ax\<close>.\<close>

definition twiny :: "axes \<Rightarrow> axes" where
  "twiny ax = new_axes\<lparr>yscale := yscale ax, ylim := ylim ax\<rparr>"

text \<open>\<^verbatim>\<open>ax.twinx()\<close>: a fresh axes that shares the x axis (scale and limits) of \<open>ax\<close>.\<close>

definition twinx :: "axes \<Rightarrow> axes" where
  "twinx ax = new_axes\<lparr>xscale := xscale ax, xlim := xlim ax\<rparr>"

text \<open>\<^verbatim>\<open>ax.scatter(x, y, c, s, label, alpha, edgecolors, linewidth)\<close> adds one layer.\<close>

definition scatter ::
  "axes \<Rightarrow> series \<Rightarrow> series \<Rightarrow> cell \<Rightarrow> cell \<Rightarrow> cell \<Rightarrow> real \<Rightarrow> string \<Rightarrow> real \<Rightarrow> axes" where
  "scatter ax x y c s l a e w =
     ax\<lparr>collections := collections ax @
          [\<lparr>sc_x = x, sc_y = y, sc_c = c, sc_s = s, sc_label = l, sc_alpha = a,
            sc_edgecolors = e, sc_linewidth = w\<rparr>]\<rparr>"

text \<open>\<^verbatim>\<open>ax.legend(title=...)\<close>: one entry per labelled layer drawn so far, in order.\<close>

definition add_legend :: "axes \<Rightarrow> string \<Rightarrow> axes" where
  "add_legend ax t = ax\<lparr>legend := Some (t, map sc_label (collections ax))\<rparr>"

section \<open>Secondary axes\<close>

text \<open>\<^verbatim>\<open>create_spectral_class_axis(ax, temp_range)\<close>\<close>

definition create_spectral_class_axis :: "axes \<Rightarrow> real \<times> real \<Rightarrow> axes" where
  "create_spectral_class_axis ax temp_range =
     (let spectral_classes = [''O'', ''B'', ''A'', ''F'', ''G'', ''K'', ''M''];
          temp_bounds = [40000, 30000, 10000, 7500, 6000, 3700, 2000];
          ax2 = twiny ax;
          ax2 = ax2\<lparr>xscale := Log\<rparr>;
          ax2 = ax2\<lparr>xlim := Fixed (fst temp_range) (snd temp_range)\<rparr>;
          ax2 = ax2\<lparr>xticks := Some temp_bounds\<rparr>;
          ax2 = ax2\<lparr>x_formatter := FixedFormatter spectral_classes\<rparr>;
          ax2 = ax2\<lparr>xlabel := ''Spectral Class''\<rparr>;
          ax2 = ax2\<lparr>xlim := invert (xlim ax2)\<rparr>
      in ax2)"

text \<open>\<^verbatim>\<open>10**i\<close> for an integer \<open>i\<close>, the negative powers as fractions.\<close>

definition pow10 :: "int \<Rightarrow> real" where
  "pow10 i = (if 0 \<le> i then 10 ^ nat i else 1 / 10 ^ nat (- i))"

text \<open>\<^verbatim>\<open>str(n)\<close>: the decimal digits of an integer.\<close>

fun str_nat_fuel :: "nat \<Rightarrow> nat \<Rightarrow> string" where
  "str_nat_fuel 0 n = []"
| "str_nat_fuel (Suc k) n =
     (if n < 10 then [char_of (48 + n)]
      else str_nat_fuel k (n div 10) @ [char_of (48 + n mod 10)])"

definition str_int :: "int \<Rightarrow> string" where
  "str_int i =
     (if i < 0 then CHR ''-'' # str_nat_fuel (Suc (nat (- i))) (nat (- i))
      else str_nat_fuel (Suc (nat i)) (nat i))"

text \<open>\<^verbatim>\<open>create_luminosity_axis(ax, mv_range)\<close>\<close>

definition create_luminosity_axis :: "axes \<Rightarrow> real \<times> real \<Rightarrow> axes" where
  "create_luminosity_axis ax mv_range =
     (let ax3 = twinx ax;
          l_min = 1 / 10 ^ 6;
          l_max = 10 ^ 6;
          ax3 = ax3\<lparr>yscale := Log\<rparr>;
          ax3 = ax3\<lparr>ylim := Fixed l_min l_max\<rparr>;
          l_ticks = map pow10 [- 6 .. 6];
          l_labels = map (\<lambda>i. ''$10^{'' @ str_int i @ ''}$'') [- 6 .. 6];
          ax3 = ax3\<lparr>yticks := Some l_ticks\<rparr>;
          ax3 = ax3\<lparr>y_formatter := FixedFormatter l_labels\<rparr>;
          ax3 = ax3\<lparr>y_minor_locator :=
                  Some \<lparr>loc_base = 10, loc_subs = map real [1 ..< 10], loc_numticks = None\<rparr>\<rparr>;
          ax3 = ax3\<lparr>ylabel := ''Luminosity (L/Lo)''\<rparr>
      in ax3)"

text \<open>
  The positions a logarithmic locator names in the decades \<open>ds\<close>: every multiple in
  \<open>loc_subs\<close> of every power \<open>loc_base ^ d\<close>.
\<close>

definition locator_positions :: "log_locator \<Rightarrow> int list \<Rightarrow> real list" where
  "locator_positions loc ds =
     concat (map (\<lambda>d. map (\<lambda>m. m * (if 0 \<le> d then loc_base loc ^ nat d
                                        else 1 / loc_base loc ^ nat (- d))) (loc_subs loc)) ds)"

section \<open>Diagram renderer\<close>

record figure =
  figsize :: "real \<times> real"
  primary :: axes
  spectral_axis :: axes
  luminosity_axis :: axes
  layout_rect :: "real list"

text \<open>
  The loop of \<^verbatim>\<open>plot_hr_diagram\<close> over the pairs of a label and a colour: the rows with
  that label are one scatter layer, unless there is none.
\<close>

fun scatter_layers :: "dataframe \<Rightarrow> (cell \<times> cell) list \<Rightarrow> axes \<Rightarrow> error + axes" where
  "scatter_layers df [] ax = Inr ax"
| "scatter_layers df ((s_type, color) # rest) ax =
     (case df_getitem df ''Star type label'' of
        Inl e \<Rightarrow> Inl e
      | Inr labels \<Rightarrow>
     (let subset = df_select df (map (\<lambda>l. l = s_type) labels) in
      if \<not> df_empty subset then
        (case df_getitem subset ''Temperature (K)'' of
           Inl e \<Rightarrow> Inl e
         | Inr x \<Rightarrow>
        (case df_getitem subset ''Absolute magnitude(Mv)'' of
           Inl e \<Rightarrow> Inl e
         | Inr y \<Rightarrow>
        (case df_getitem subset ''Marker size'' of
           Inl e \<Rightarrow> Inl e
         | Inr sizes \<Rightarrow>
        (case iloc sizes 0 of
           Inl e \<Rightarrow> Inl e
         | Inr s \<Rightarrow>
             scatter_layers df rest
               (scatter ax x y color s s_type (7 / 10) ''black'' (1 / 2))))))
      else scatter_layers df rest ax))"

text \<open>
  \<^verbatim>\<open>plot_hr_diagram(df)\<close>. The result is the figure that \<^verbatim>\<open>plt.show()\<close> displays, or the
  exception that leaves the function. The table is only read.
\<close>

definition plot_hr_diagram :: "dataframe \<Rightarrow> error + figure" where
  "plot_hr_diagram df =
     (let ax = new_axes in
     (case df_getitem df ''Star type label'' of
        Inl e \<Rightarrow> Inl e
      | Inr labels \<Rightarrow>
     (case df_getitem df ''Color'' of
        Inl e \<Rightarrow> Inl e
      | Inr colors \<Rightarrow>
     (case scatter_layers df (zip (unique labels) (unique colors)) ax of
        Inl e \<Rightarrow> Inl e
      | Inr ax \<Rightarrow>
     (let ax = ax\<lparr>xscale := Log\<rparr>;
          ax = ax\<lparr>xlim := invert (xlim ax)\<rparr>;
          ax = ax\<lparr>ylim := invert (ylim ax)\<rparr>;
          ax = ax\<lparr>xlabel := ''Temperature (K)''\<rparr>;
          ax = ax\<lparr>ylabel := ''Absolute Magnitude (Mv)''\<rparr>;
          ax = ax\<lparr>title := ''Hertzsprung-Russell Diagram''\<rparr>;
          ax = add_legend ax ''Stellar Classification'';
          ax = ax\<lparr>grid := True\<rparr>
      in
     (case df_getitem df ''Temperature (K)'' of
        Inl e \<Rightarrow> Inl e
      | Inr t1 \<Rightarrow>
     (case series_min t1 of
        Inl e \<Rightarrow> Inl e
      | Inr t_lo \<Rightarrow>
     (case df_getitem df ''Temperature (K)'' of
        Inl e \<Rightarrow> Inl e
      | Inr t2 \<Rightarrow>
     (case series_max t2 of
        Inl e \<Rightarrow> Inl e
      | Inr t_hi \<Rightarrow>
     (let temp_min = t_lo * (9 / 10);
          temp_max = t_hi * (11 / 10);
          ax = ax\<lparr>xlim := Fixed temp_max temp_min\<rparr>
      in
     (case df_getitem df ''Absolute magnitude(Mv)'' of
        Inl e \<Rightarrow> Inl e
      | Inr m1 \<Rightarrow>
     (case series_min m1 of
        Inl e \<Rightarrow> Inl e
      | Inr m_lo \<Rightarrow>
     (case df_getitem df ''Absolute magnitude(Mv)'' of
        Inl e \<Rightarrow> Inl e
      | Inr m2 \<Rightarrow>
     (case series_max m2 of
        Inl e \<Rightarrow> Inl e
      | Inr m_hi \<Rightarrow>
     (let mv_min = m_lo - 1;
          mv_max = m_hi + 1;
          ax = ax\<lparr>ylim := Fixed mv_max mv_min\<rparr>;
          major_ticks = [40000, 30000, 20000, 10000, 7500, 6000, 5000, 3000];
          ax = ax\<lparr>xticks := Some major_ticks\<rparr>;
          ax = ax\<lparr>x_formatter := ScalarFormatter\<rparr>;
          ax = ax\<lparr>x_minor_locator :=
                 Some \<lparr>loc_base = 10, loc_subs = map real [2 ..< 10], loc_numticks = Some 10\<rparr>\<rparr>;
          ax = ax\<lparr>minor_tick_length := Some 4\<rparr>;
          ax2 = create_spectral_class_axis ax (temp_min, temp_max);
          ax3 = create_luminosity_axis ax (mv_min, mv_max)
      in Inr \<lparr>figsize = (14, 10), primary = ax, spectral_axis = ax2,
               luminosity_axis = ax3,
               layout_rect = [0, 0, 1, 96 / 100]\<rparr>)))))))))))))))"

section \<open>The pipeline\<close>

text \<open>
  The world of \<^verbatim>\<open>main\<close>: the store of tables, the lines printed, the figures shown, and
  (as a ghost field) the names of the functions called, in call order. The result of
  \<open>main\<close> is the exception that leaves it, if any, and the world it leaves behind.
\<close>

record world =
  heap :: "dataframe list"
  stdout :: "string list"
  shown :: "figure list"
  calls :: "string list"

definition main :: "(string \<Rightarrow> string + dataframe) \<Rightarrow> world \<Rightarrow> error option \<times> world" where
  "main read_csv w =
     (let file_path = ''6 class csv.csv'';
          w = w\<lparr>calls := calls w @ [''load_data'']\<rparr>;
          (loaded, out) = load_data read_csv file_path (stdout w);
          w = w\<lparr>stdout := out\<rparr>
      in
      case loaded of
        None \<Rightarrow> (None, w)
      | Some d \<Rightarrow>
          (let df = length (heap w);
               w = w\<lparr>heap := heap w @ [d]\<rparr>;
               w = w\<lparr>calls := calls w @ [''map_star_types'']\<rparr>
           in
           case map_star_types df (heap w) of
             (Inl e, h) \<Rightarrow> (Some e, w\<lparr>heap := h\<rparr>)
           | (Inr df, h) \<Rightarrow>
               (let w = w\<lparr>heap := h\<rparr>;
                    w = w\<lparr>calls := calls w @ [''plot_hr_diagram'']\<rparr>
                in
                case plot_hr_diagram (heap w ! df) of
                  Inl e \<Rightarrow> (Some e, w)
                | Inr fig \<Rightarrow> (None, w\<lparr>shown := shown w @ [fig]\<rparr>))))"

section \<open>Vocabulary of the specification\<close>

text \<open>
  The descriptor table as the specification lists it: a type code with its label, marker
  size and colour.
\<close>

definition spec_descriptors :: "(int \<times> string \<times> int \<times> string) list" where
  "spec_descriptors =
     [(0, ''Red Dwarf'', 30, ''red''),
      (1, ''Brown Dwarf'', 20, ''maroon''),
      (2, ''White Dwarf'', 25, ''green''),
      (3, ''Main Sequence'', 50, ''blue''),
      (4, ''Giant'', 80, ''orange''),
      (5, ''Supergiant'', 100, ''purple'')]"

text \<open>A cell of the star-type column holds a code of the set \<open>{0..5}\<close>.\<close>

definition code_in_table :: "cell \<Rightarrow> bool" where
  "code_in_table x = (case cell_key x of None \<Rightarrow> False | Some k \<Rightarrow> 0 \<le> k \<and> k \<le> 5)"

text \<open>The triple that the dictionary holds for a cell with a code of the table.\<close>

definition descriptor :: "cell \<Rightarrow> string \<times> int \<times> string" where
  "descriptor x = projr (star_type_lookup x)"

definition label_cell :: "cell \<Rightarrow> cell" where
  "label_cell x = StrCell (fst (descriptor x))"

definition size_cell :: "cell \<Rightarrow> cell" where
  "size_cell x = IntCell (fst (snd (descriptor x)))"

definition color_cell :: "cell \<Rightarrow> cell" where
  "color_cell x = StrCell (snd (snd (descriptor x)))"

text \<open>The table with the three derived columns assigned, one after the other.\<close>

definition classified :: "dataframe \<Rightarrow> dataframe" where
  "classified df =
     (let codes = projr (df_getitem df ''Star type'');
          df1 = df_setitem df ''Star type label'' (map label_cell codes);
          df2 = df_setitem df1 ''Marker size'' (map size_cell codes);
          df3 = df_setitem df2 ''Color'' (map color_cell codes)
      in df3)"

text \<open>
  A sample dataset: one star of each type, temperatures from 3000 K to 40000 K and
  magnitudes from -10 to 15.
\<close>

definition sample_df :: dataframe where
  "sample_df =
     [(''Temperature (K)'',
         [IntCell 3000, IntCell 3200, IntCell 25000, IntCell 40000, IntCell 3500, IntCell 3600]),
      (''Luminosity(L/Lo)'',
         [NumCell (1 / 500), NumCell (1 / 2000), NumCell (1 / 20), NumCell 200000,
          NumCell 150000, NumCell 300000]),
      (''Absolute magnitude(Mv)'',
         [NumCell 15, NumCell 14, NumCell 11, NumCell (- 4), NumCell (- 6), NumCell (- 10)]),
      (''Star type'', [IntCell 0, IntCell 1, IntCell 2, IntCell 3, IntCell 4, IntCell 5]),
      (''Spectral Class'',
         [StrCell ''M'', StrCell ''M'', StrCell ''B'', StrCell ''O'', StrCell ''M'', StrCell ''M''])]"

text \<open>A dataset with a star-type code that the descriptor table does not know.\<close>

definition unknown_code_df :: dataframe where
  "unknown_code_df =
     [(''Temperature (K)'', [IntCell 3000, IntCell 5800]),
      (''Luminosity(L/Lo)'', [NumCell (1 / 500), NumCell 1]),
      (''Absolute magnitude(Mv)'', [NumCell 15, NumCell 5]),
      (''Star type'', [IntCell 0, IntCell 7]),
      (''Spectral Class'', [StrCell ''M'', StrCell ''G''])]"

definition empty_world :: world where
  "empty_world = \<lparr>heap = [], stdout = [], shown = [], calls = []\<rparr>"

section \<open>Properties of the classifier\<close>

lemma df_getitem_setitem:
  "df_getitem (df_setitem df n c) m = (if m = n then Inr c else df_getitem df m)"
  by (simp add: df_getitem_def df_setitem_def update_conv')

lemma star_type_map_dom: "star_type_map k = None \<longleftrightarrow> \<not> (0 \<le> k \<and> k \<le> 5)"
  by (simp add: star_type_map_def)

lemma star_type_map_spec: "star_type_map k = map_of spec_descriptors k"
  by (simp add: star_type_map_def spec_descriptors_def)

lemma star_type_lookup_Inl: "star_type_lookup x = Inl e \<Longrightarrow> e = KeyError"
  by (auto simp: star_type_lookup_def split: option.splits)

lemma star_type_lookup_valid:
  assumes "code_in_table x"
  shows "star_type_lookup x = Inr (descriptor x)"
proof -
  from assms obtain k where k: "cell_key x = Some k" "0 \<le> k" "k \<le> 5"
    by (cases "cell_key x") (simp_all add: code_in_table_def)
  then have "star_type_map k \<noteq> None"
    by (simp add: star_type_map_dom)
  then obtain t where "star_type_map k = Some t"
    by blast
  with k show ?thesis
    by (simp add: star_type_lookup_def descriptor_def)
qed

lemma descriptor_spec:
  assumes "code_in_table x"
  shows "\<exists>k. cell_key x = Some k \<and> map_of spec_descriptors k = Some (descriptor x)"
proof -
  from assms obtain k where k: "cell_key x = Some k" "0 \<le> k" "k \<le> 5"
    by (cases "cell_key x") (simp_all add: code_in_table_def)
  then have "star_type_map k \<noteq> None"
    by (simp add: star_type_map_dom)
  then obtain t where t: "star_type_map k = Some t"
    by blast
  with k have "descriptor x = t"
    by (simp add: star_type_lookup_def descriptor_def)
  with t k show ?thesis
    by (simp add: star_type_map_spec)
qed

lemma star_type_lookup_invalid:
  assumes "\<not> code_in_table x"
  shows "star_type_lookup x = Inl KeyError"
proof (cases "cell_key x")
  case None
  then show ?thesis
    by (simp add: star_type_lookup_def)
next
  case (Some k)
  with assms have "star_type_map k = None"
    by (simp add: code_in_table_def star_type_map_dom)
  with Some show ?thesis
    by (simp add: star_type_lookup_def)
qed

lemma series_map_Inr:
  "(\<And>x. x \<in> set xs \<Longrightarrow> f x = Inr (g x)) \<Longrightarrow> series_map f xs = Inr (map g xs)"
  by (induction xs) auto

lemma series_map_Inl:
  assumes "x \<in> set xs" "f x = Inl e" "\<forall>y e'. f y = Inl e' \<longrightarrow> e' = e"
  shows "series_map f xs = Inl e"
  using assms(1)
proof (induction xs)
  case Nil
  then show ?case by simp
next
  case (Cons a xs)
  show ?case
  proof (cases "f a")
    case (Inl e')
    with assms(3) have "e' = e" by blast
    with Inl show ?thesis by simp
  next
    case (Inr y)
    with Cons assms(2) have "series_map f xs = Inl e" by auto
    with Inr show ?thesis by simp
  qed
qed

lemma map_star_types_valid:
  assumes "r < length h"
    and "df_getitem (h ! r) ''Star type'' = Inr codes"
    and "\<forall>x\<in>set codes. code_in_table x"
  shows "map_star_types r h = (Inr r, h[r := classified (h ! r)])"
proof -
  have l: "series_map label_of codes = Inr (map label_cell codes)"
    using assms(3) by (intro series_map_Inr) (simp add: label_of_def label_cell_def star_type_lookup_valid)
  have s: "series_map size_of codes = Inr (map size_cell codes)"
    using assms(3) by (intro series_map_Inr) (simp add: size_of_def size_cell_def star_type_lookup_valid)
  have c: "series_map color_of codes = Inr (map color_cell codes)"
    using assms(3) by (intro series_map_Inr) (simp add: color_of_def color_cell_def star_type_lookup_valid)
  let ?d1 = "df_setitem (h ! r) ''Star type label'' (map label_cell codes)"
  let ?d2 = "df_setitem ?d1 ''Marker size'' (map size_cell codes)"
  let ?d3 = "df_setitem ?d2 ''Color'' (map color_cell codes)"
  have g1: "df_getitem ?d1 ''Star type'' = Inr codes"
    using assms(2) by (simp add: df_getitem_setitem)
  have g2: "df_getitem ?d2 ''Star type'' = Inr codes"
    using g1 by (simp add: df_getitem_setitem)
  have cl: "classified (h ! r) = ?d3"
    using assms(2) by (simp add: classified_def)
  show ?thesis
    unfolding map_star_types_def cl using assms(1) by (simp add: assms(2) l s c g1 g2)
qed

lemma map_star_types_invalid:
  assumes "df_getitem (h ! r) ''Star type'' = Inr codes"
    and "x \<in> set codes"
    and "\<not> code_in_table x"
  shows "series_map label_of codes = Inl KeyError \<and> map_star_types r h = (Inl KeyError, h)"
proof -
  have a: "label_of x = Inl KeyError"
    using assms(3) by (simp add: label_of_def star_type_lookup_invalid)
  have b: "\<forall>y e'. label_of y = Inl e' \<longrightarrow> e' = KeyError"
    by (auto simp: label_of_def split: sum.splits dest: star_type_lookup_Inl)
  have l: "series_map label_of codes = Inl KeyError"
    by (rule series_map_Inl[OF assms(2) a b])
  have "map_star_types r h = (Inl KeyError, h)"
    using assms(1) l by (simp add: map_star_types_def)
  with l show ?thesis by simp
qed

lemma classified_columns:
  assumes "df_getitem df ''Star type'' = Inr codes"
  shows "df_getitem (classified df) ''Star type label'' = Inr (map label_cell codes)"
    and "df_getitem (classified df) ''Marker size'' = Inr (map size_cell codes)"
    and "df_getitem (classified df) ''Color'' = Inr (map color_cell codes)"
  using assms by (simp_all add: classified_def df_getitem_setitem)

lemma classified_frame:
  assumes "name \<noteq> ''Star type label''" "name \<noteq> ''Marker size''" "name \<noteq> ''Color''"
  shows "df_getitem (classified df) name = df_getitem df name"
  using assms by (simp add: classified_def df_getitem_setitem Let_def)

lemma sample_codes:
  "df_getitem sample_df ''Star type'' =
     Inr [IntCell 0, IntCell 1, IntCell 2, IntCell 3, IntCell 4, IntCell 5]"
  by (simp add: sample_df_def df_getitem_def)

lemma unknown_codes:
  "df_getitem unknown_code_df ''Star type'' = Inr [IntCell 0, IntCell 7]"
  by (simp add: unknown_code_df_def df_getitem_def)

text \<open>
  Claim C1. When every cell of the star-type column holds a code of \<open>{0..5}\<close>, the
  classifier returns the table with three derived columns as long as the code column, and
  in every row the label, the marker size and the colour are the triple that the
  descriptor table of the specification lists for the code of that row. When some cell
  holds anything else, the classifier raises KeyError: no default triple is returned.
\<close>

theorem map_star_types_descriptors:
  assumes "r < length h"
    and "df_getitem (h ! r) ''Star type'' = Inr codes"
  shows "((\<forall>x\<in>set codes. code_in_table x) \<longrightarrow>
           (\<exists>h' labels sizes colors.
              map_star_types r h = (Inr r, h') \<and>
              df_getitem (h' ! r) ''Star type label'' = Inr labels \<and>
              df_getitem (h' ! r) ''Marker size'' = Inr sizes \<and>
              df_getitem (h' ! r) ''Color'' = Inr colors \<and>
              length labels = length codes \<and> length sizes = length codes \<and>
              length colors = length codes \<and>
              (\<forall>i<length codes. \<exists>k l s c.
                 cell_key (codes ! i) = Some k \<and> map_of spec_descriptors k = Some (l, s, c) \<and>
                 labels ! i = StrCell l \<and> sizes ! i = IntCell s \<and> colors ! i = StrCell c))) \<and>
         ((\<exists>x\<in>set codes. \<not> code_in_table x) \<longrightarrow> fst (map_star_types r h) = Inl KeyError)"
proof (intro conjI impI)
  assume v: "\<forall>x\<in>set codes. code_in_table x"
  let ?h = "h[r := classified (h ! r)]"
  have m: "map_star_types r h = (Inr r, ?h)"
    by (rule map_star_types_valid[OF assms v])
  have at: "?h ! r = classified (h ! r)"
    using assms(1) by simp
  have rows: "\<forall>i<length codes. \<exists>k l s c.
       cell_key (codes ! i) = Some k \<and> map_of spec_descriptors k = Some (l, s, c) \<and>
       map label_cell codes ! i = StrCell l \<and> map size_cell codes ! i = IntCell s \<and>
       map color_cell codes ! i = StrCell c"
  proof (intro allI impI)
    fix i assume i: "i < length codes"
    then have "code_in_table (codes ! i)"
      using v by simp
    then obtain k where k: "cell_key (codes ! i) = Some k"
        "map_of spec_descriptors k = Some (descriptor (codes ! i))"
      using descriptor_spec by blast
    obtain l s c where d: "descriptor (codes ! i) = (l, s, c)"
      by (cases "descriptor (codes ! i)")
    show "\<exists>k l s c.
       cell_key (codes ! i) = Some k \<and> map_of spec_descriptors k = Some (l, s, c) \<and>
       map label_cell codes ! i = StrCell l \<and> map size_cell codes ! i = IntCell s \<and>
       map color_cell codes ! i = StrCell c"
      using k d i by (simp add: label_cell_def size_cell_def color_cell_def)
  qed
  show "\<exists>h' labels sizes colors.
              map_star_types r h = (Inr r, h') \<and>
              df_getitem (h' ! r) ''Star type label'' = Inr labels \<and>
              df_getitem (h' ! r) ''Marker size'' = Inr sizes \<and>
              df_getitem (h' ! r) ''Color'' = Inr colors \<and>
              length labels = length codes \<and> length sizes = length codes \<and>
              length colors = length codes \<and>
              (\<forall>i<length codes. \<exists>k l s c.
                 cell_key (codes ! i) = Some k \<and> map_of spec_descriptors k = Some (l, s, c) \<and>
                 labels ! i = StrCell l \<and> sizes ! i = IntCell s \<and> colors ! i = StrCell c)"
    apply (rule exI[of _ ?h])
    apply (rule exI[of _ "map label_cell codes"])
    apply (rule exI[of _ "map size_cell codes"])
    apply (rule exI[of _ "map color_cell codes"])
    using m rows classified_columns[OF assms(2)] by (simp add: at)
next
  assume "\<exists>x\<in>set codes. \<not> code_in_table x"
  then obtain x where "x \<in> set codes" "\<not> code_in_table x"
    by blast
  then have "map_star_types r h = (Inl KeyError, h)"
    using map_star_types_invalid[OF assms(2)] by blast
  then show "fst (map_star_types r h) = Inl KeyError"
    by simp
qed


theorem map_star_types_descriptors_witness:
  "0 < length [sample_df] \<and>
   df_getitem ([sample_df] ! 0) ''Star type'' =
     Inr [IntCell 0, IntCell 1, IntCell 2, IntCell 3, IntCell 4, IntCell 5] \<and>
   list_all code_in_table [IntCell 0, IntCell 1, IntCell 2, IntCell 3, IntCell 4, IntCell 5] \<and>
   fst (map_star_types 0 [sample_df]) = Inr 0 \<and>
   0 < length [unknown_code_df] \<and>
   df_getitem ([unknown_code_df] ! 0) ''Star type'' = Inr [IntCell 0, IntCell 7] \<and>
   (\<exists>x\<in>set [IntCell 0, IntCell 7]. \<not> code_in_table x) \<and>
   fst (map_star_types 0 [unknown_code_df]) = Inl KeyError"
proof -
  let ?cs = "[IntCell 0, IntCell 1, IntCell 2, IntCell 3, IntCell 4, IntCell 5]"
  have h1: "0 < length [sample_df]"
    by simp
  have h2: "df_getitem ([sample_df] ! 0) ''Star type'' = Inr ?cs"
    by (simp add: sample_codes)
  have h3: "\<forall>x\<in>set ?cs. code_in_table x"
    by (simp add: code_in_table_def)
  from map_star_types_descriptors[OF h1 h2] h3
  obtain h' where "map_star_types 0 [sample_df] = (Inr 0, h')"
    by blast
  then have a: "fst (map_star_types 0 [sample_df]) = Inr 0"
    by simp
  have u1: "0 < length [unknown_code_df]"
    by simp
  have u2: "df_getitem ([unknown_code_df] ! 0) ''Star type'' = Inr [IntCell 0, IntCell 7]"
    by (simp add: unknown_codes)
  have u3: "\<exists>x\<in>set [IntCell 0, IntCell 7]. \<not> code_in_table x"
    by (simp add: code_in_table_def)
  from map_star_types_descriptors[OF u1 u2] u3
  have b: "fst (map_star_types 0 [unknown_code_df]) = Inl KeyError"
    by blast
  have h4: "list_all code_in_table ?cs"
    by (simp add: code_in_table_def)
  from h1 h2 h4 a u1 u2 u3 b show ?thesis
    by blast
qed

text \<open>
  Claim C10. When some cell of the star-type column holds a code outside \<open>{0..5}\<close>, the
  mapping that computes the first derived column already raises KeyError, so the
  classifier leaves with KeyError and the store of tables as it was: the caller's table
  has the same \<open>Star type label\<close>, \<open>Marker size\<close> and \<open>Color\<close> entries (or none) as before
  the call.
\<close>

theorem unknown_code_no_partial_enrichment:
  assumes "df_getitem (h ! r) ''Star type'' = Inr codes"
    and "x \<in> set codes"
    and "\<not> code_in_table x"
  shows "series_map label_of codes = Inl KeyError \<and>
         map_star_types r h = (Inl KeyError, h) \<and>
         df_getitem (snd (map_star_types r h) ! r) ''Star type label'' =
           df_getitem (h ! r) ''Star type label'' \<and>
         df_getitem (snd (map_star_types r h) ! r) ''Marker size'' =
           df_getitem (h ! r) ''Marker size'' \<and>
         df_getitem (snd (map_star_types r h) ! r) ''Color'' = df_getitem (h ! r) ''Color''"
proof -
  have "series_map label_of codes = Inl KeyError \<and> map_star_types r h = (Inl KeyError, h)"
    by (rule map_star_types_invalid[OF assms])
  then show ?thesis
    by simp
qed

theorem unknown_code_no_partial_enrichment_witness:
  "df_getitem ([unknown_code_df] ! 0) ''Star type'' = Inr [IntCell 0, IntCell 7] \<and>
   IntCell 7 \<in> set [IntCell 0, IntCell 7] \<and>
   \<not> code_in_table (IntCell 7) \<and>
   map_star_types 0 [unknown_code_df] = (Inl KeyError, [unknown_code_df]) \<and>
   df_getitem (snd (map_star_types 0 [unknown_code_df]) ! 0) ''Star type label'' = Inl KeyError"
proof -
  have u2: "df_getitem ([unknown_code_df] ! 0) ''Star type'' = Inr [IntCell 0, IntCell 7]"
    by (simp add: unknown_codes)
  have u3: "IntCell 7 \<in> set [IntCell 0, IntCell 7]"
    by simp
  have u4: "\<not> code_in_table (IntCell 7)"
    by (simp add: code_in_table_def)
  have n: "df_getitem ([unknown_code_df] ! 0) ''Star type label'' = Inl KeyError"
    by (simp add: unknown_code_df_def df_getitem_def)
  from unknown_code_no_partial_enrichment[OF u2 u3 u4] u2 u3 u4 n show ?thesis
    by simp
qed

text \<open>
  Claim C7, counterexample. The claim says that the table object held by the caller is
  unchanged by the classifier. After a successful call on the sample dataset, the table
  that the caller's reference points to is no longer the table it was before the call.
\<close>

theorem map_star_types_mutates_argument:
  "snd (map_star_types 0 [sample_df]) ! 0 \<noteq> [sample_df] ! 0"
proof -
  let ?cs = "[IntCell 0, IntCell 1, IntCell 2, IntCell 3, IntCell 4, IntCell 5]"
  have h2: "df_getitem ([sample_df] ! 0) ''Star type'' = Inr ?cs"
    by (simp add: sample_codes)
  have h3: "\<forall>x\<in>set ?cs. code_in_table x"
    by (simp add: code_in_table_def)
  have m: "map_star_types 0 [sample_df] = (Inr 0, [sample_df][0 := classified ([sample_df] ! 0)])"
    by (rule map_star_types_valid[OF _ h2 h3]) simp
  have a: "df_getitem (classified sample_df) ''Color'' = Inr (map color_cell ?cs)"
    using sample_codes by (rule classified_columns(3))
  have b: "df_getitem sample_df ''Color'' = Inl KeyError"
    by (simp add: sample_df_def df_getitem_def)
  from a b have "classified sample_df \<noteq> sample_df"
    by auto
  with m show ?thesis
    by simp
qed

text \<open>
  Claim C7, amended. The classifier performs no input or output (the model has no such
  effect) and its only effect on the store is on the caller's own table: the store keeps
  its size, every other table is unchanged, in the caller's table every column other than
  \<open>Star type label\<close>, \<open>Marker size\<close> and \<open>Color\<close> is unchanged, and the store is unchanged
  when the classifier raises. On success the returned reference is the argument itself,
  and the caller's table has been enriched in place with the three derived columns.
\<close>

theorem map_star_types_in_place:
  assumes "r < length h"
    and "map_star_types r h = (res, h')"
  shows "length h' = length h \<and>
         (\<forall>r'. r' \<noteq> r \<longrightarrow> h' ! r' = h ! r') \<and>
         (\<forall>name. name \<noteq> ''Star type label'' \<and> name \<noteq> ''Marker size'' \<and> name \<noteq> ''Color'' \<longrightarrow>
            df_getitem (h' ! r) name = df_getitem (h ! r) name) \<and>
         (\<forall>e. res = Inl e \<longrightarrow> h' = h) \<and>
         (\<forall>r2. res = Inr r2 \<longrightarrow> r2 = r \<and> h' ! r = classified (h ! r))"
proof (cases "df_getitem (h ! r) ''Star type''")
  case (Inl e)
  then have "map_star_types r h = (Inl e, h)"
    by (simp add: map_star_types_def)
  with assms(2) have "res = Inl e" and "h' = h"
    by simp_all
  then show ?thesis
    by simp
next
  case (Inr codes)
  show ?thesis
  proof (cases "\<forall>x\<in>set codes. code_in_table x")
    case True
    have "map_star_types r h = (Inr r, h[r := classified (h ! r)])"
      by (rule map_star_types_valid[OF assms(1) Inr True])
    with assms(2) have res: "res = Inr r" and h': "h' = h[r := classified (h ! r)]"
      by simp_all
    show ?thesis
      unfolding res h' using assms(1) by (simp add: classified_frame)
  next
    case False
    then obtain x where "x \<in> set codes" "\<not> code_in_table x"
      by blast
    then have "map_star_types r h = (Inl KeyError, h)"
      using map_star_types_invalid[OF Inr] by blast
    with assms(2) have "res = Inl KeyError" and "h' = h"
      by simp_all
    then show ?thesis
      by simp
  qed
qed

theorem map_star_types_in_place_witness:
  "0 < length [sample_df, unknown_code_df] \<and>
   map_star_types 0 [sample_df, unknown_code_df] =
     (Inr 0, [classified sample_df, unknown_code_df]) \<and>
   length [classified sample_df, unknown_code_df] = length [sample_df, unknown_code_df] \<and>
   [classified sample_df, unknown_code_df] ! 1 = [sample_df, unknown_code_df] ! 1 \<and>
   df_getitem ([classified sample_df, unknown_code_df] ! 0) ''Star type'' =
     df_getitem ([sample_df, unknown_code_df] ! 0) ''Star type''"
proof -
  let ?cs = "[IntCell 0, IntCell 1, IntCell 2, IntCell 3, IntCell 4, IntCell 5]"
  let ?h = "[sample_df, unknown_code_df]"
  have h1: "0 < length ?h"
    by simp
  have h2: "df_getitem (?h ! 0) ''Star type'' = Inr ?cs"
    by (simp add: sample_codes)
  have h3: "\<forall>x\<in>set ?cs. code_in_table x"
    by (simp add: code_in_table_def)
  have "map_star_types 0 ?h = (Inr 0, ?h[0 := classified (?h ! 0)])"
    by (rule map_star_types_valid[OF h1 h2 h3])
  then have m: "map_star_types 0 ?h = (Inr 0, [classified sample_df, unknown_code_df])"
    by simp
  from map_star_types_in_place[OF h1 m] h1 m show ?thesis
    by simp
qed

section \<open>Properties of the loader\<close>

lemma required_missing:
  assumes "c \<in> set required_columns" "c \<notin> set (df_columns df)"
  shows "\<not> list_all (\<lambda>col. col \<in> set (df_columns df)) required_columns"
  using assms by (auto simp: list_all_iff)

text \<open>
  Claim C5. When the file has been read and one of the five required columns is absent
  from the table, the loader prints \<open>Error loading data:\<close> followed by the message that
  lists the required columns, and returns \<open>None\<close>: the exception does not leave the loader.
  The pipeline then ends without an exception, having called the loader only: neither the
  classifier nor the renderer is invoked, the store of tables is unchanged and no figure
  is shown.
\<close>

theorem missing_column_stops_pipeline:
  assumes "read_csv ''6 class csv.csv'' = Inr df"
    and "c \<in> set required_columns"
    and "c \<notin> set (df_columns df)"
  shows "load_data read_csv ''6 class csv.csv'' out =
           (None, out @ [''Error loading data: '' @ missing_columns_message]) \<and>
         main read_csv w =
           (None, w\<lparr>calls := calls w @ [''load_data''],
                    stdout := stdout w @ [''Error loading data: '' @ missing_columns_message]\<rparr>)"
proof -
  have m: "\<not> list_all (\<lambda>col. col \<in> set (df_columns df)) required_columns"
    by (rule required_missing[OF assms(2,3)])
  have l: "\<And>out. load_data read_csv ''6 class csv.csv'' out =
           (None, out @ [''Error loading data: '' @ missing_columns_message])"
    using assms(1) m by (simp add: load_data_def)
  show ?thesis
    by (simp add: l main_def)
qed

theorem missing_column_stops_pipeline_witness:
  "(\<lambda>p. Inr (tl sample_df)) ''6 class csv.csv'' = (Inr (tl sample_df) :: string + dataframe) \<and>
   ''Temperature (K)'' \<in> set required_columns \<and>
   ''Temperature (K)'' \<notin> set (df_columns (tl sample_df)) \<and>
   main (\<lambda>p. Inr (tl sample_df)) empty_world =
     (None, \<lparr>heap = [], stdout = [''Error loading data: '' @ missing_columns_message],
             shown = [], calls = [''load_data'']\<rparr>)"
proof -
  have a: "(\<lambda>p. Inr (tl sample_df)) ''6 class csv.csv'' = (Inr (tl sample_df) :: string + dataframe)"
    by simp
  have b: "''Temperature (K)'' \<in> set required_columns"
    by (simp add: required_columns_def)
  have c: "''Temperature (K)'' \<notin> set (df_columns (tl sample_df))"
    by (simp add: df_columns_def sample_df_def)
  from missing_column_stops_pipeline[OF a b c, of "[]" empty_world] a b c show ?thesis
    by (simp add: empty_world_def)
qed

end
